theory Spec2Isabelle
  imports Main "HOL-Library.Word"
begin

section \<open>ThousandEyes API test automation (d11/task-1/te\_tests.py)\<close>

text \<open>
  A shallow embedding of the module \<^verbatim>\<open>te_tests.py\<close>. Each function of the module
  (all but the script entry \<^verbatim>\<open>main\<close>) becomes a function from the state of the outside
  world to a result and the new state of the world; a Python exception is the left
  injection of a sum, a Python \<^verbatim>\<open>None\<close> returned where a value is optional is \<open>None\<close>.
\<close>

subsection \<open>Python values and exceptions\<close>

text \<open>
  What \<^verbatim>\<open>response.json()\<close> returns: the Python value of a JSON document. A float is
  its IEEE-754 binary64 bit pattern. A dict is the list of its items in insertion order;
  a lookup takes the first item with the key (the keys of a dict are distinct).
\<close>

datatype json =
    JNull
  | JBool bool
  | JInt int
  | JFloat "64 word"
  | JStr string
  | JArr "json list"
  | JObj "(string \<times> json) list"

datatype exn =
    KeyError string
  | TypeError
  | ValueError
  | AttributeError
  | IndexError
  | JSONDecodeError
  | RequestException string
  | OSError string

text \<open>
  The builtins of the Python runtime that the module applies to values whose type is
  only known at run time: \<^verbatim>\<open>str(v)\<close> (what an f-string does with \<^verbatim>\<open>{v}\<close>),
  \<^verbatim>\<open>int(v)\<close> and \<^verbatim>\<open>format(v, spec)\<close> (what an f-string does with \<^verbatim>\<open>{v:spec}\<close>). They
  are parameters of the model.
\<close>

record builtins =
  py_str :: "json \<Rightarrow> string"
  py_int :: "json \<Rightarrow> exn + int"
  py_format :: "json \<Rightarrow> string \<Rightarrow> exn + string"

text \<open>Truth value of a Python object, as \<^verbatim>\<open>if x:\<close> and \<^verbatim>\<open>not x\<close> test it.\<close>

fun truthy :: "json \<Rightarrow> bool" where
  "truthy JNull = False"
| "truthy (JBool b) = b"
| "truthy (JInt n) = (n \<noteq> 0)"
| "truthy (JFloat w) = (w \<noteq> 0 \<and> w \<noteq> 0x8000000000000000)"
| "truthy (JStr s) = (s \<noteq> [])"
| "truthy (JArr xs) = (xs \<noteq> [])"
| "truthy (JObj kvs) = (kvs \<noteq> [])"

text \<open>\<^verbatim>\<open>d.get(key, default)\<close>: only a dict has the method.\<close>

fun dict_get :: "json \<Rightarrow> string \<Rightarrow> json \<Rightarrow> exn + json" where
  "dict_get (JObj kvs) k d = Inr (case map_of kvs k of None \<Rightarrow> d | Some v \<Rightarrow> v)"
| "dict_get _ k d = Inl AttributeError"

text \<open>\<^verbatim>\<open>d[key]\<close> with a string key: a dict without the key raises KeyError, any other
  JSON value raises TypeError (a list or a string wants an integer index, the others are
  not subscriptable).\<close>

fun getitem :: "json \<Rightarrow> string \<Rightarrow> exn + json" where
  "getitem (JObj kvs) k = (case map_of kvs k of None \<Rightarrow> Inl (KeyError k) | Some v \<Rightarrow> Inr v)"
| "getitem _ k = Inl TypeError"

text \<open>\<^verbatim>\<open>xs[0]\<close>: the first element of a list, the first character of a string; a dict
  has no key \<^verbatim>\<open>0\<close> (the keys of a JSON object are strings), the rest is not
  subscriptable.\<close>

fun getitem0 :: "json \<Rightarrow> exn + json" where
  "getitem0 (JArr []) = Inl IndexError"
| "getitem0 (JArr (x # xs)) = Inr x"
| "getitem0 (JStr []) = Inl IndexError"
| "getitem0 (JStr (c # cs)) = Inr (JStr [c])"
| "getitem0 (JObj kvs) = Inl (KeyError ''0'')"
| "getitem0 _ = Inl TypeError"

text \<open>\<^verbatim>\<open>for x in v\<close>: the elements of a list, the keys of a dict, the characters of a
  string; nothing else is iterable.\<close>

fun py_iter :: "json \<Rightarrow> exn + json list" where
  "py_iter (JArr xs) = Inr xs"
| "py_iter (JObj kvs) = Inr (map (\<lambda>kv. JStr (fst kv)) kvs)"
| "py_iter (JStr s) = Inr (map (\<lambda>c. JStr [c]) s)"
| "py_iter _ = Inl TypeError"

text \<open>An f-string: its pieces are evaluated from left to right, the first exception
  ends the evaluation.\<close>

fun fstring :: "(exn + string) list \<Rightarrow> exn + string" where
  "fstring [] = Inr []"
| "fstring (Inl e # ps) = Inl e"
| "fstring (Inr s # ps) = (case fstring ps of Inl e \<Rightarrow> Inl e | Inr t \<Rightarrow> Inr (s @ t))"

definition lit :: "string \<Rightarrow> exn + string" where
  "lit s = Inr s"

text \<open>\<^verbatim>\<open>{v}\<close> for a fallible expression \<^verbatim>\<open>v\<close>.\<close>

definition interp :: "builtins \<Rightarrow> exn + json \<Rightarrow> exn + string" where
  "interp bi v = (case v of Inl e \<Rightarrow> Inl e | Inr x \<Rightarrow> Inr (py_str bi x))"

text \<open>\<^verbatim>\<open>str(n)\<close> of a Python int: its decimal digits.\<close>

fun digits :: "nat \<Rightarrow> string" where
  "digits n = (if n < 10 then [''0123456789'' ! n]
               else digits (n div 10) @ [''0123456789'' ! (n mod 10)])"

declare digits.simps [simp del]

definition str_int :: "int \<Rightarrow> string" where
  "str_int i = (if i < 0 then CHR ''-'' # digits (nat (- i)) else digits (nat i))"

text \<open>\<^verbatim>\<open>str(x)\<close> of an optional string (\<^verbatim>\<open>os.getenv\<close> returns \<^verbatim>\<open>None\<close> for an unset
  variable).\<close>

definition str_opt :: "string option \<Rightarrow> string" where
  "str_opt x = (case x of None \<Rightarrow> ''None'' | Some s \<Rightarrow> s)"

subsection \<open>The outside world\<close>

datatype level = INFO | WARNING | ERROR

text \<open>A response of the requests library: \<open>response_text\<close> is the attribute
  \<^verbatim>\<open>text\<close>, \<open>json\<close> what the method \<^verbatim>\<open>json()\<close> returns or raises.\<close>

record response =
  status_code :: int
  headers :: "(string \<times> string) list"
  response_text :: string
  json :: "exn + json"

text \<open>\<^verbatim>\<open>response.ok\<close> of the requests library: false exactly when
  \<^verbatim>\<open>raise_for_status()\<close> raises, that is for a status from 400 to 599.\<close>

definition ok :: "response \<Rightarrow> bool" where
  "ok r = (\<not> (400 \<le> status_code r \<and> status_code r < 600))"

record http_call =
  req_method :: string
  req_url :: string
  req_headers :: "(string \<times> string) list"
  req_json :: "json option"

text \<open>
  The world: \<open>network n\<close> is what the \<open>n\<close>-th HTTP exchange of the process produces (a
  response, or the exception the requests library raises), \<open>sent\<close> the calls made so
  far, \<open>slept\<close> the arguments of the calls of \<^verbatim>\<open>time.sleep\<close>, \<open>logged\<close> the records the
  logger received, \<open>open_fails\<close> the exception \<^verbatim>\<open>open(name, "w")\<close> raises for a name, and
  \<open>files\<close> the contents of the files written. The only writer of the module is
  \<^verbatim>\<open>json.dump\<close>, so the content of a file is the document dumped and the indentation
  it was printed with.
\<close>

datatype file_content = JsonDump json nat

record world =
  network :: "nat \<Rightarrow> exn + response"
  sent :: "http_call list"
  slept :: "int list"
  logged :: "(level \<times> string) list"
  open_fails :: "string \<Rightarrow> exn option"
  files :: "string \<Rightarrow> file_content option"

type_synonym 'a io = "world \<Rightarrow> (exn + 'a) \<times> world"

definition ioreturn :: "'a \<Rightarrow> 'a io" where
  "ioreturn x w = (Inr x, w)"

text \<open>A pure expression that may raise.\<close>

definition iolift :: "exn + 'a \<Rightarrow> 'a io" where
  "iolift r w = (r, w)"

text \<open>Sequencing: an exception of the first statement skips the rest.\<close>

definition iobind :: "'a io \<Rightarrow> ('a \<Rightarrow> 'b io) \<Rightarrow> 'b io" where
  "iobind m f w = (case m w of (Inl e, w') \<Rightarrow> (Inl e, w') | (Inr x, w') \<Rightarrow> f x w')"

definition logger_log :: "level \<Rightarrow> string \<Rightarrow> unit io" where
  "logger_log l msg w = (Inr (), w\<lparr>logged := logged w @ [(l, msg)]\<rparr>)"

definition logger_info :: "string \<Rightarrow> unit io" where
  "logger_info = logger_log INFO"

definition logger_warning :: "string \<Rightarrow> unit io" where
  "logger_warning = logger_log WARNING"

definition logger_error :: "string \<Rightarrow> unit io" where
  "logger_error = logger_log ERROR"

text \<open>\<^verbatim>\<open>requests.get\<close> and \<^verbatim>\<open>requests.post\<close>: one HTTP exchange.\<close>

definition requests_request ::
  "string \<Rightarrow> string \<Rightarrow> (string \<times> string) list \<Rightarrow> json option \<Rightarrow> response io" where
  "requests_request m u h p w =
     (network w (length (sent w)),
      w\<lparr>sent := sent w @ [\<lparr>req_method = m, req_url = u, req_headers = h, req_json = p\<rparr>]\<rparr>)"

definition requests_get :: "string \<Rightarrow> (string \<times> string) list \<Rightarrow> response io" where
  "requests_get u h = requests_request ''GET'' u h None"

definition requests_post :: "string \<Rightarrow> (string \<times> string) list \<Rightarrow> json \<Rightarrow> response io" where
  "requests_post u h p = requests_request ''POST'' u h (Some p)"

subsection \<open>Module configuration\<close>

text \<open>The three environment variables read at import time.\<close>

record config =
  TE_API_TOKEN :: "string option"
  TEST_NAME :: "string option"
  TARGET :: "string option"

definition BASE_URL :: string where
  "BASE_URL = ''https://api.thousandeyes.com/v7''"

definition HEADERS :: "config \<Rightarrow> (string \<times> string) list" where
  "HEADERS cfg =
     [(''Authorization'', ''Bearer '' @ str_opt (TE_API_TOKEN cfg)),
      (''Content-Type'', ''application/json'')]"

definition apos :: string where
  "apos = [CHR 0x27]"

definition NL :: string where
  "NL = [CHR 0x0A]"

definition ebind :: "exn + 'a \<Rightarrow> ('a \<Rightarrow> exn + 'b) \<Rightarrow> exn + 'b" where
  "ebind r f = (case r of Inl e \<Rightarrow> Inl e | Inr x \<Rightarrow> f x)"

subsection \<open>Agent lookup, test lookup, test creation, result retrieval\<close>

definition get_first_agent_id :: "builtins \<Rightarrow> config \<Rightarrow> int option io" where
  "get_first_agent_id bi cfg =
     iobind (logger_info ''Attempting to fetch the first agent ID.'') (\<lambda>_.
     iobind (requests_get (BASE_URL @ ''/agents'') (HEADERS cfg)) (\<lambda>response.
     if ok response then
       iobind (iolift (ebind (json response) (\<lambda>body. dict_get body ''agents'' (JArr [])))) (\<lambda>agents.
       if truthy agents then
         iobind (iolift (getitem0 agents)) (\<lambda>agent.
         iobind (iolift (fstring
           [lit ''Successfully fetched agent: '', interp bi (getitem agent ''agentName''),
            lit '' (ID: '', interp bi (getitem agent ''agentId''), lit '')''])) (\<lambda>msg.
         iobind (logger_info msg) (\<lambda>_.
         iobind (iolift (ebind (getitem agent ''agentId'') (py_int bi))) (\<lambda>n.
         ioreturn (Some n)))))
       else
         iobind (logger_warning ''No agents found in your account.'') (\<lambda>_.
         ioreturn None))
     else
       iobind (logger_error (''Failed to fetch agents: '' @ str_int (status_code response)
                             @ '' - '' @ response_text response)) (\<lambda>_.
       ioreturn None)))"

text \<open>The loop of \<^verbatim>\<open>find_existing_test_id\<close> over the tests still to visit; when none
  is left, the statements after the loop run.\<close>

fun find_loop :: "builtins \<Rightarrow> string \<Rightarrow> json list \<Rightarrow> int option io" where
  "find_loop bi test_name [] =
     iobind (logger_info (''No existing test named '' @ apos @ test_name @ apos @ '' found.'')) (\<lambda>_.
     ioreturn None)"
| "find_loop bi test_name (test # rest) =
     iobind (iolift (dict_get test ''testName'' JNull)) (\<lambda>name.
     if name = JStr test_name then
       iobind (iolift (fstring
         [lit ''Found existing test ID: '', interp bi (getitem test ''testId'')])) (\<lambda>msg.
       iobind (logger_info msg) (\<lambda>_.
       iobind (iolift (ebind (getitem test ''testId'') (py_int bi))) (\<lambda>n.
       ioreturn (Some n))))
     else find_loop bi test_name rest)"

definition find_existing_test_id :: "builtins \<Rightarrow> config \<Rightarrow> string \<Rightarrow> int option io" where
  "find_existing_test_id bi cfg test_name =
     iobind (logger_info (''Attempting to find existing test with name: ''
                          @ apos @ test_name @ apos)) (\<lambda>_.
     iobind (requests_get (BASE_URL @ ''/tests/http-server'') (HEADERS cfg)) (\<lambda>response.
     if ok response then
       iobind (iolift (ebind (ebind (json response) (\<lambda>body. dict_get body ''tests'' (JArr [])))
                             py_iter)) (\<lambda>tests.
       find_loop bi test_name tests)
     else
       iobind (logger_error (''Failed to retrieve tests: '' @ str_int (status_code response)
                             @ '' - '' @ response_text response)) (\<lambda>_.
       ioreturn None)))"

definition create_test ::
  "builtins \<Rightarrow> config \<Rightarrow> string \<Rightarrow> string \<Rightarrow> int \<Rightarrow> int \<Rightarrow> int option io" where
  "create_test bi cfg test_name target agent_id interval =
     iobind (logger_info (''Attempting to create a new test: '' @ apos @ test_name @ apos)) (\<lambda>_.
     let payload = JObj
           [(''testName'', JStr test_name),
            (''type'', JStr ''agent-to-server''),
            (''url'', JStr target),
            (''interval'', JInt interval),
            (''protocol'', JStr ''ICMP''),
            (''enabled'', JBool True),
            (''agents'', JArr [JObj [(''agentId'', JInt agent_id)]])]
     in
     iobind (requests_post (BASE_URL @ ''/tests/http-server'') (HEADERS cfg) payload) (\<lambda>response.
     if status_code response = 201 then
       iobind (iolift (ebind (json response) (\<lambda>body. dict_get body ''testId'' JNull))) (\<lambda>test_id.
       iobind (logger_info (''Successfully created test '' @ apos @ test_name @ apos
                            @ '' (ID: '' @ py_str bi test_id @ '')'')) (\<lambda>_.
       iobind (iolift (py_int bi test_id)) (\<lambda>n.
       ioreturn (Some n))))
     else
       iobind (logger_error (''Error creating test: '' @ str_int (status_code response)
                             @ '' - '' @ response_text response)) (\<lambda>_.
       ioreturn None)))"

text \<open>The default of the parameter \<^verbatim>\<open>interval\<close>.\<close>

definition create_test_default :: "builtins \<Rightarrow> config \<Rightarrow> string \<Rightarrow> string \<Rightarrow> int \<Rightarrow> int option io" where
  "create_test_default bi cfg test_name target agent_id =
     create_test bi cfg test_name target agent_id 3600"

definition get_test_results :: "config \<Rightarrow> int \<Rightarrow> json option io" where
  "get_test_results cfg test_id =
     iobind (logger_info (''Attempting to fetch test results for test ID: '' @ str_int test_id)) (\<lambda>_.
     iobind (requests_get (BASE_URL @ ''/test-results/'' @ str_int test_id @ ''/http-server'')
                          (HEADERS cfg)) (\<lambda>response.
     if ok response then
       iobind (logger_info (''Successfully fetched test results for test ID '' @ str_int test_id)) (\<lambda>_.
       iobind (iolift (json response)) (\<lambda>body.
       ioreturn (Some body)))
     else
       iobind (logger_error (''Failed to retrieve test results: '' @ str_int (status_code response)
                             @ '' - '' @ response_text response)) (\<lambda>_.
       ioreturn None)))"

subsection \<open>Result analysis and report persistence\<close>

text \<open>\<^verbatim>\<open>{result.get(key)}\<close> inside the summary.\<close>

definition field :: "builtins \<Rightarrow> json \<Rightarrow> string \<Rightarrow> exn + string" where
  "field bi result k = interp bi (dict_get result k JNull)"

text \<open>The f-string \<^verbatim>\<open>output\<close> of \<^verbatim>\<open>analyze_results\<close> for the entry \<^verbatim>\<open>result\<close>.\<close>

definition summary :: "builtins \<Rightarrow> config \<Rightarrow> json \<Rightarrow> exn + string" where
  "summary bi cfg result = fstring
     [lit (NL @ ''========== HTTP SERVER TEST RESULTS =========='' @ NL @ ''Test Name     : ''),
      lit (str_opt (TEST_NAME cfg)),
      lit (NL @ ''Agent         : ''),
      interp bi (ebind (getitem result ''agent'') (\<lambda>a. getitem a ''agentName'')),
      lit '' (ID: '',
      interp bi (ebind (getitem result ''agent'') (\<lambda>a. getitem a ''agentId'')),
      lit ('')'' @ NL @ ''Test Date     : ''),
      interp bi (getitem result ''date''),
      lit (NL @ ''Target URL    : ''),
      lit (str_opt (TARGET cfg)),
      lit (NL @ ''----------------------------------------------'' @ NL @ ''Response Code : ''),
      field bi result ''responseCode'',
      lit (NL @ ''Response Time : ''),
      field bi result ''responseTime'',
      lit ('' ms'' @ NL @ ''Redirect Time : ''),
      field bi result ''redirectTime'',
      lit ('' ms'' @ NL @ ''DNS Time      : ''),
      field bi result ''dnsTime'',
      lit ('' ms'' @ NL @ ''SSL Time      : ''),
      field bi result ''sslTime'',
      lit ('' ms'' @ NL @ ''Connect Time  : ''),
      field bi result ''connectTime'',
      lit ('' ms'' @ NL @ ''Wait Time     : ''),
      field bi result ''waitTime'',
      lit ('' ms'' @ NL @ ''Receive Time  : ''),
      field bi result ''receiveTime'',
      lit ('' ms'' @ NL @ ''Total Time    : ''),
      field bi result ''totalTime'',
      lit ('' ms'' @ NL @ ''Throughput    : ''),
      field bi result ''throughput'',
      lit ('' bytes/sec'' @ NL @ ''Wire Size     : ''),
      field bi result ''wireSize'',
      lit ('' bytes'' @ NL @ ''Server IP     : ''),
      field bi result ''serverIp'',
      lit (NL @ ''SSL Cipher    : ''),
      field bi result ''sslCipher'',
      lit (NL @ ''SSL Version   : ''),
      field bi result ''sslVersion'',
      lit (NL @ ''Health Score  : ''),
      ebind (dict_get result ''healthScore'' (JInt 0)) (\<lambda>v. py_format bi v ''.4f''),
      lit (NL @ ''=============================================='' @ NL)]"

definition analyze_results :: "builtins \<Rightarrow> config \<Rightarrow> json \<Rightarrow> unit io" where
  "analyze_results bi cfg results =
     iobind (logger_info ''Analyzing test results.'') (\<lambda>_.
     iobind (iolift (dict_get results ''results'' (JArr []))) (\<lambda>entries.
     if \<not> truthy entries then
       iobind (logger_warning ''No HTTP Server test results available for analysis.'') (\<lambda>_.
       ioreturn ())
     else
       iobind (iolift (getitem0 entries)) (\<lambda>result.
       iobind (iolift (summary bi cfg result)) (\<lambda>output.
       logger_info output))))"

text \<open>\<^verbatim>\<open>with open(filename, "w") as f: json.dump(results, f, indent=2)\<close>: the file is
  replaced by the dump, unless it cannot be opened.\<close>

definition dump_to_file :: "string \<Rightarrow> json \<Rightarrow> nat \<Rightarrow> unit io" where
  "dump_to_file filename results indent w =
     (case open_fails w filename of
        Some e \<Rightarrow> (Inl e, w)
      | None \<Rightarrow> (Inr (), w\<lparr>files := (files w)(filename \<mapsto> JsonDump results indent)\<rparr>))"

definition save_report :: "string \<Rightarrow> json \<Rightarrow> unit io" where
  "save_report test_name results =
     (let filename = test_name @ ''_report.json'' in
      iobind (dump_to_file filename results 2) (\<lambda>_.
      logger_info (''Report saved to: '' @ filename)))"

subsection \<open>The request handler\<close>

text \<open>\<^verbatim>\<open>api_request\<close>: the body of the function is the single statement \<^verbatim>\<open>pass\<close>, so a
  call returns \<^verbatim>\<open>None\<close> and leaves the world as it is.\<close>

definition api_request ::
  "string \<Rightarrow> string \<Rightarrow> json option \<Rightarrow> json option \<Rightarrow> response option io" where
  "api_request method endpoint json_data params = ioreturn None"

subsection \<open>Vocabulary of the properties\<close>

text \<open>The test of the loop, \<^verbatim>\<open>test.get("testName") == test_name\<close>.\<close>

definition name_is :: "string \<Rightarrow> json \<Rightarrow> bool" where
  "name_is test_name test = (dict_get test ''testName'' JNull = Inr (JStr test_name))"

fun is_dict :: "json \<Rightarrow> bool" where
  "is_dict (JObj kvs) = True"
| "is_dict _ = False"

text \<open>\<^verbatim>\<open>return int(x)\<close>: the integer is returned, an exception of the conversion
  propagates.\<close>

definition returned_int :: "exn + int \<Rightarrow> exn + int option" where
  "returned_int r = (case r of Inl e \<Rightarrow> Inl e | Inr n \<Rightarrow> Inr (Some n))"

subsection \<open>Examples: a runtime, an environment, worlds\<close>

text \<open>
  A runtime to run the model on the examples below. On \<^verbatim>\<open>None\<close>, booleans, integers and
  strings it is \<^verbatim>\<open>str\<close> of CPython; on booleans, integers and non-empty strings of
  decimal digits it is \<^verbatim>\<open>int\<close>; on integers below \<open>2 ^ 53\<close> with the format \<^verbatim>\<open>.4f\<close> it is
  \<^verbatim>\<open>format\<close>. The examples apply it to no other value, and no theorem about the module
  depends on it: they hold for every runtime.
\<close>

definition digit_value :: "char \<Rightarrow> nat option" where
  "digit_value c = map_of (zip ''0123456789'' [0, 1, 2, 3, 4, 5, 6, 7, 8, 9]) c"

fun decimal_value :: "string \<Rightarrow> nat \<Rightarrow> nat option" where
  "decimal_value [] acc = Some acc"
| "decimal_value (c # cs) acc =
     (case digit_value c of None \<Rightarrow> None | Some d \<Rightarrow> decimal_value cs (10 * acc + d))"

definition test_runtime :: builtins where
  "test_runtime =
     \<lparr>py_str = (\<lambda>v. case v of
          JNull \<Rightarrow> ''None''
        | JBool b \<Rightarrow> (if b then ''True'' else ''False'')
        | JInt n \<Rightarrow> str_int n
        | JStr s \<Rightarrow> s
        | _ \<Rightarrow> ''...''),
      py_int = (\<lambda>v. case v of
          JBool b \<Rightarrow> Inr (if b then 1 else 0)
        | JInt n \<Rightarrow> Inr n
        | JStr s \<Rightarrow> (case (if s = [] then None else decimal_value s 0) of
                      None \<Rightarrow> Inl ValueError | Some n \<Rightarrow> Inr (int n))
        | _ \<Rightarrow> Inl TypeError),
      py_format = (\<lambda>v spec. case v of
          JInt n \<Rightarrow> (if spec = ''.4f'' then Inr (str_int n @ ''.0000'') else Inl ValueError)
        | _ \<Rightarrow> Inl TypeError)\<rparr>"

text \<open>The environment and the documents of the unit tests
  (\<^verbatim>\<open>TestData\<close> in d11/test\_te\_tests\_unit\_tests.py).\<close>

definition test_env :: config where
  "test_env = \<lparr>TE_API_TOKEN = Some ''mock-token-123'', TEST_NAME = Some ''Cisco.com Test'',
               TARGET = Some ''https://cisco.com''\<rparr>"

definition AGENT_DATA :: json where
  "AGENT_DATA = JObj [(''agents'', JArr [JObj
     [(''agentId'', JStr ''3''), (''agentName'', JStr ''Singapore''),
      (''countryId'', JStr ''SG'')]])]"

definition cisco_test :: json where
  "cisco_test = JObj
     [(''interval'', JInt 3600),
      (''testId'', JStr ''6969142''),
      (''testName'', JStr ''Cisco.com Test''),
      (''createdBy'', JStr ''Student (student@cisco.com)''),
      (''createdDate'', JStr ''2025-04-10T13:42:26Z''),
      (''type'', JStr ''http-server''),
      (''enabled'', JBool True),
      (''url'', JStr ''https://cisco.com'')]"

definition TESTS_DATA :: json where
  "TESTS_DATA = JObj [(''tests'', JArr [cisco_test])]"

text \<open>Two result documents with the same first entry; the second has one more run.\<close>

definition first_run :: json where
  "first_run = JObj
     [(''agent'', JObj [(''agentId'', JStr ''3''), (''agentName'', JStr ''Singapore''),
                        (''countryId'', JStr ''SG'')]),
      (''date'', JStr ''2025-04-10T15:20:39Z''),
      (''responseCode'', JInt 200),
      (''responseTime'', JInt 125),
      (''dnsTime'', JInt 90),
      (''serverIp'', JStr ''23.54.57.29'')]"

definition results_one :: json where
  "results_one = JObj [(''results'', JArr [first_run])]"

definition second_run :: json where
  "second_run = JObj
     [(''agent'', JObj [(''agentId'', JStr ''7''), (''agentName'', JStr ''Sydney'')]),
      (''date'', JStr ''2025-04-10T16:20:39Z''),
      (''responseCode'', JInt 503)]"

definition results_two :: json where
  "results_two = JObj [(''results'', JArr [first_run, second_run])]"

text \<open>A process that has done nothing yet, on a network whose exchanges produce \<open>net\<close>;
  every file can be opened.\<close>

definition fresh_world :: "(nat \<Rightarrow> exn + response) \<Rightarrow> world" where
  "fresh_world net =
     \<lparr>network = net, sent = [], slept = [], logged = [],
      open_fails = (\<lambda>name. None), files = (\<lambda>name. None)\<rparr>"

text \<open>A response with a JSON body, and one with a status and a text only.\<close>

definition reply :: "int \<Rightarrow> json \<Rightarrow> response" where
  "reply code body = \<lparr>status_code = code, headers = [], response_text = [], json = Inr body\<rparr>"

definition status_only :: "int \<Rightarrow> string \<Rightarrow> response" where
  "status_only code msg =
     \<lparr>status_code = code, headers = [], response_text = msg, json = Inl JSONDecodeError\<rparr>"

text \<open>The rate-limited response of the unit tests: status 429 with a reset hint of 60
  seconds.\<close>

definition rate_limited :: response where
  "rate_limited =
     \<lparr>status_code = 429, headers = [(''X-Organization-Rate-Limit-Reset'', ''60'')],
      response_text = ''Too Many Requests'', json = Inl JSONDecodeError\<rparr>"

text \<open>The directory of the report cannot be written.\<close>

definition read_only_world :: world where
  "read_only_world =
     (fresh_world (\<lambda>n. Inl (RequestException ''unused'')))
       \<lparr>open_fails := (\<lambda>name. Some (OSError ''Permission denied''))\<rparr>"

section \<open>Properties\<close>

subsection \<open>Auxiliary facts\<close>

lemmas io_defs = iobind_def ioreturn_def iolift_def logger_log_def logger_info_def
  logger_warning_def logger_error_def requests_request_def requests_get_def requests_post_def

lemma getitem_dict_get: "getitem v k = Inr x \<Longrightarrow> dict_get v k d = Inr x"
  by (cases v) (simp_all split: option.splits)

text \<open>The loop returns at the first test with the name, and falls through to \<^verbatim>\<open>None\<close>
  when there is none.\<close>

lemma find_loop_result:
  "\<forall>t\<in>set tests. is_dict t \<Longrightarrow>
   fst (find_loop bi test_name tests w) =
     (case find (name_is test_name) tests of
        None \<Rightarrow> Inr None
      | Some t \<Rightarrow> returned_int (ebind (getitem t ''testId'') (py_int bi)))"
proof (induction tests arbitrary: w)
  case Nil
  then show ?case by (simp add: io_defs)
next
  case (Cons t ts)
  from Cons.prems obtain kvs where t: "t = JObj kvs" by (cases t) auto
  show ?case
  proof (cases "name_is test_name t")
    case True
    then show ?thesis
      by (auto simp add: t name_is_def io_defs lit_def interp_def ebind_def returned_int_def
          split: option.splits sum.splits)
  next
    case False
    with Cons show ?thesis
      by (auto simp add: t name_is_def io_defs split: option.splits)
  qed
qed

text \<open>When the file can be opened, \<^verbatim>\<open>save_report\<close> writes the document, printed with an
  indentation of 2, to the file named after the test, and logs the name.\<close>

lemma save_report_writes:
  "open_fails w (test_name @ ''_report.json'') = None \<Longrightarrow>
   save_report test_name results w =
     (Inr (),
      w\<lparr>files := (files w)(test_name @ ''_report.json'' \<mapsto> JsonDump results 2),
        logged := logged w @ [(INFO, ''Report saved to: '' @ test_name @ ''_report.json'')]\<rparr>)"
  by (simp add: save_report_def dump_to_file_def io_defs Let_def)

text \<open>No collaborator catches an exception of its HTTP exchange.\<close>

lemma request_error_propagates:
  assumes "network w (length (sent w)) = Inl e"
  shows "fst (get_first_agent_id bi cfg w) = Inl e"
    and "fst (find_existing_test_id bi cfg test_name w) = Inl e"
    and "fst (create_test bi cfg test_name target agent_id interval w) = Inl e"
    and "fst (get_test_results cfg test_id w) = Inl e"
  using assms
  by (simp_all add: get_first_agent_id_def find_existing_test_id_def create_test_def
      get_test_results_def io_defs Let_def)

subsection \<open>The scenarios of the unit tests, run on the model\<close>

lemma example_agent_found:
  "fst (get_first_agent_id test_runtime test_env (fresh_world (\<lambda>n. Inr (reply 200 AGENT_DATA))))
     = Inr (Some 3) \<and>
   logged (snd (get_first_agent_id test_runtime test_env
                  (fresh_world (\<lambda>n. Inr (reply 200 AGENT_DATA))))) =
     [(INFO, ''Attempting to fetch the first agent ID.''),
      (INFO, ''Successfully fetched agent: Singapore (ID: 3)'')]"
  by (simp add: get_first_agent_id_def io_defs fresh_world_def reply_def ok_def AGENT_DATA_def
      ebind_def lit_def interp_def test_runtime_def digit_value_def)

lemma example_agents_http_error:
  "fst (get_first_agent_id test_runtime test_env
          (fresh_world (\<lambda>n. Inr (status_only 500 ''API Error'')))) = Inr None \<and>
   logged (snd (get_first_agent_id test_runtime test_env
                  (fresh_world (\<lambda>n. Inr (status_only 500 ''API Error''))))) =
     [(INFO, ''Attempting to fetch the first agent ID.''),
      (ERROR, ''Failed to fetch agents: 500 - API Error'')]"
  by (simp add: get_first_agent_id_def io_defs fresh_world_def status_only_def ok_def
      str_int_def digits.simps)

lemma example_create_test:
  "fst (create_test_default test_runtime test_env ''Cisco.com Test'' ''https://cisco.com'' 3
          (fresh_world (\<lambda>n. Inr (reply 201 (JObj [(''testId'', JStr ''6969142'')])))))
     = Inr (Some 6969142) \<and>
   logged (snd (create_test_default test_runtime test_env ''Cisco.com Test'' ''https://cisco.com'' 3
          (fresh_world (\<lambda>n. Inr (reply 201 (JObj [(''testId'', JStr ''6969142'')])))))) =
     [(INFO, ''Attempting to create a new test: '' @ apos @ ''Cisco.com Test'' @ apos),
      (INFO, ''Successfully created test '' @ apos @ ''Cisco.com Test'' @ apos
             @ '' (ID: 6969142)'')]"
  by (simp add: create_test_default_def create_test_def io_defs fresh_world_def reply_def
      ebind_def test_runtime_def digit_value_def Let_def)

lemma example_get_test_results:
  "fst (get_test_results test_env 6969142 (fresh_world (\<lambda>n. Inr (reply 200 results_one))))
     = Inr (Some results_one) \<and>
   map req_url (sent (snd (get_test_results test_env 6969142
          (fresh_world (\<lambda>n. Inr (reply 200 results_one)))))) =
     [''https://api.thousandeyes.com/v7/test-results/6969142/http-server'']"
  by (simp add: get_test_results_def io_defs fresh_world_def reply_def ok_def BASE_URL_def
      str_int_def digits.simps)

lemma example_summary:
  "summary test_runtime test_env first_run = Inr
     (NL @
       ''========== HTTP SERVER TEST RESULTS =========='' @ NL @
       ''Test Name     : Cisco.com Test'' @ NL @
       ''Agent         : Singapore (ID: 3)'' @ NL @
       ''Test Date     : 2025-04-10T15:20:39Z'' @ NL @
       ''Target URL    : https://cisco.com'' @ NL @
       ''----------------------------------------------'' @ NL @
       ''Response Code : 200'' @ NL @
       ''Response Time : 125 ms'' @ NL @
       ''Redirect Time : None ms'' @ NL @
       ''DNS Time      : 90 ms'' @ NL @
       ''SSL Time      : None ms'' @ NL @
       ''Connect Time  : None ms'' @ NL @
       ''Wait Time     : None ms'' @ NL @
       ''Receive Time  : None ms'' @ NL @
       ''Total Time    : None ms'' @ NL @
       ''Throughput    : None bytes/sec'' @ NL @
       ''Wire Size     : None bytes'' @ NL @
       ''Server IP     : 23.54.57.29'' @ NL @
       ''SSL Cipher    : None'' @ NL @
       ''SSL Version   : None'' @ NL @
       ''Health Score  : 0.0000'' @ NL @
       ''=============================================='' @ NL)"
  by (simp add: summary_def field_def first_run_def test_env_def test_runtime_def lit_def
      interp_def ebind_def str_opt_def str_int_def digits.simps)

lemma example_analyze_results:
  "analyze_results test_runtime test_env results_two (fresh_world net) =
     (case summary test_runtime test_env first_run of
        Inl e \<Rightarrow> (Inl e, (fresh_world net)\<lparr>logged := [(INFO, ''Analyzing test results.'')]\<rparr>)
      | Inr output \<Rightarrow>
          (Inr (), (fresh_world net)\<lparr>logged := [(INFO, ''Analyzing test results.''),
                                                 (INFO, output)]\<rparr>))"
  by (simp add: analyze_results_def io_defs results_two_def fresh_world_def split: sum.splits)

lemma example_no_results:
  "analyze_results test_runtime test_env (JObj [(''results'', JArr [])]) (fresh_world net) =
     (Inr (), (fresh_world net)\<lparr>logged :=
        [(INFO, ''Analyzing test results.''),
         (WARNING, ''No HTTP Server test results available for analysis.'')]\<rparr>)"
  by (simp add: analyze_results_def io_defs fresh_world_def)

subsection \<open>The request handler\<close>

text \<open>
  C1. When the server would answer the first attempt with status 200, \<^verbatim>\<open>api_request\<close>
  makes no HTTP call at all and returns \<^verbatim>\<open>None\<close>, not the response; it does not sleep.
\<close>

theorem api_request_ignores_success:
  "api_request ''GET'' ''agents'' None None (fresh_world (\<lambda>n. Inr (status_only 200 ''OK''))) =
     (Inr None, fresh_world (\<lambda>n. Inr (status_only 200 ''OK''))) \<and>
   sent (snd (api_request ''GET'' ''agents'' None None
                (fresh_world (\<lambda>n. Inr (status_only 200 ''OK''))))) = [] \<and>
   slept (snd (api_request ''GET'' ''agents'' None None
                 (fresh_world (\<lambda>n. Inr (status_only 200 ''OK''))))) = []"
  by (simp add: api_request_def ioreturn_def fresh_world_def)

text \<open>
  C2. When the server would answer 429 with a reset hint of 60 seconds and then 200,
  \<^verbatim>\<open>api_request\<close> makes no HTTP call, does not sleep and returns \<^verbatim>\<open>None\<close>.
\<close>

theorem api_request_ignores_rate_limit:
  "fst (api_request ''GET'' ''agents'' None None
          (fresh_world (\<lambda>n. if n = 0 then Inr rate_limited else Inr (status_only 200 ''OK''))))
     = Inr None \<and>
   sent (snd (api_request ''GET'' ''agents'' None None
          (fresh_world (\<lambda>n. if n = 0 then Inr rate_limited else Inr (status_only 200 ''OK'')))))
     = [] \<and>
   slept (snd (api_request ''GET'' ''agents'' None None
          (fresh_world (\<lambda>n. if n = 0 then Inr rate_limited else Inr (status_only 200 ''OK'')))))
     = []"
  by (simp add: api_request_def ioreturn_def fresh_world_def)

text \<open>
  C3. When the server would answer every attempt with status 500, \<^verbatim>\<open>api_request\<close> makes
  no HTTP call, does not sleep, and returns \<^verbatim>\<open>None\<close> instead of raising.
\<close>

theorem api_request_ignores_server_errors:
  "fst (api_request ''GET'' ''agents'' None None
          (fresh_world (\<lambda>n. Inr (status_only 500 ''API Error'')))) = Inr None \<and>
   sent (snd (api_request ''GET'' ''agents'' None None
          (fresh_world (\<lambda>n. Inr (status_only 500 ''API Error''))))) = [] \<and>
   slept (snd (api_request ''GET'' ''agents'' None None
          (fresh_world (\<lambda>n. Inr (status_only 500 ''API Error''))))) = []"
  by (simp add: api_request_def ioreturn_def fresh_world_def)

text \<open>
  C4. When the server would answer with status 404, \<^verbatim>\<open>api_request\<close> makes no HTTP call
  and returns \<^verbatim>\<open>None\<close> instead of raising.
\<close>

theorem api_request_ignores_client_error:
  "fst (api_request ''GET'' ''agents'' None None
          (fresh_world (\<lambda>n. Inr (status_only 404 ''Not Found'')))) = Inr None \<and>
   sent (snd (api_request ''GET'' ''agents'' None None
          (fresh_world (\<lambda>n. Inr (status_only 404 ''Not Found''))))) = []"
  by (simp add: api_request_def ioreturn_def fresh_world_def)

text \<open>
  C5. Whatever the arguments and the world, \<^verbatim>\<open>api_request\<close> returns \<^verbatim>\<open>None\<close>: it never
  returns a response and never raises, and it leaves the world as it was.
\<close>

theorem api_request_returns_none:
  "api_request method endpoint json_data params w = (Inr None, w)"
  by (simp add: api_request_def ioreturn_def)

subsection \<open>The collaborators\<close>

text \<open>
  C6. When the HTTP exchange raises (here a connection error), each of
  \<^verbatim>\<open>get_first_agent_id\<close>, \<^verbatim>\<open>find_existing_test_id\<close>, \<^verbatim>\<open>create_test\<close> and
  \<^verbatim>\<open>get_test_results\<close> lets the exception propagate to its caller, and logs nothing
  but its opening line.
\<close>

theorem collaborators_propagate_request_error:
  "get_first_agent_id test_runtime test_env
       (fresh_world (\<lambda>n. Inl (RequestException ''Connection error''))) =
     (Inl (RequestException ''Connection error''),
      (fresh_world (\<lambda>n. Inl (RequestException ''Connection error'')))
        \<lparr>sent := [\<lparr>req_method = ''GET'', req_url = ''https://api.thousandeyes.com/v7/agents'',
                    req_headers = HEADERS test_env, req_json = None\<rparr>],
         logged := [(INFO, ''Attempting to fetch the first agent ID.'')]\<rparr>) \<and>
   fst (find_existing_test_id test_runtime test_env ''Cisco.com Test''
       (fresh_world (\<lambda>n. Inl (RequestException ''Connection error'')))) =
     Inl (RequestException ''Connection error'') \<and>
   fst (create_test_default test_runtime test_env ''Cisco.com Test'' ''https://cisco.com'' 3
       (fresh_world (\<lambda>n. Inl (RequestException ''Connection error'')))) =
     Inl (RequestException ''Connection error'') \<and>
   fst (get_test_results test_env 6969142
       (fresh_world (\<lambda>n. Inl (RequestException ''Connection error'')))) =
     Inl (RequestException ''Connection error'')"
  by (simp add: get_first_agent_id_def find_existing_test_id_def create_test_default_def
      create_test_def get_test_results_def io_defs fresh_world_def BASE_URL_def)

text \<open>
  C7. Let the tests request succeed with a JSON object whose \<^verbatim>\<open>tests\<close> (the empty list
  when the key is absent) is a list of objects. If no test has the name,
  \<^verbatim>\<open>find_existing_test_id\<close> returns \<^verbatim>\<open>None\<close>. If some test has the name, it returns
  \<^verbatim>\<open>int(test["testId"])\<close> for the first such test (an exception of that expression
  propagates).
\<close>

theorem find_existing_test_id_by_name:
  assumes "network w (length (sent w)) = Inr r" and "ok r" and "json r = Inr body"
    and "dict_get body ''tests'' (JArr []) = Inr (JArr tests)"
    and "\<forall>t\<in>set tests. is_dict t"
  shows "(\<not> (\<exists>t\<in>set tests. name_is test_name t) \<longrightarrow>
            fst (find_existing_test_id bi cfg test_name w) = Inr None) \<and>
         ((\<exists>t\<in>set tests. name_is test_name t) \<longrightarrow>
            (\<exists>t\<in>set tests. name_is test_name t \<and> find (name_is test_name) tests = Some t \<and>
               fst (find_existing_test_id bi cfg test_name w) =
                 returned_int (ebind (getitem t ''testId'') (py_int bi))))"
proof -
  have loop: "fst (find_existing_test_id bi cfg test_name w) =
      (case find (name_is test_name) tests of
        None \<Rightarrow> Inr None
      | Some t \<Rightarrow> returned_int (ebind (getitem t ''testId'') (py_int bi)))"
    using assms(1-4) find_loop_result [OF assms(5)]
    by (simp add: find_existing_test_id_def io_defs ebind_def)
  have none: "find (name_is test_name) tests = None"
    if "\<not> (\<exists>t\<in>set tests. name_is test_name t)"
    using that by (simp add: find_None_iff)
  have some: "\<exists>t\<in>set tests. name_is test_name t \<and> find (name_is test_name) tests = Some t"
    if "\<exists>t\<in>set tests. name_is test_name t"
  proof (cases "find (name_is test_name) tests")
    case None
    with that show ?thesis by (simp add: find_None_iff)
  next
    case (Some t)
    then show ?thesis by (auto simp add: find_Some_iff)
  qed
  show ?thesis
  proof (intro conjI impI)
    assume "\<not> (\<exists>t\<in>set tests. name_is test_name t)"
    then show "fst (find_existing_test_id bi cfg test_name w) = Inr None"
      using none by (simp add: loop)
  next
    assume "\<exists>t\<in>set tests. name_is test_name t"
    from some [OF this] obtain t where "t \<in> set tests" and "name_is test_name t"
      and "find (name_is test_name) tests = Some t"
      by blast
    then show "\<exists>t\<in>set tests. name_is test_name t \<and> find (name_is test_name) tests = Some t \<and>
        fst (find_existing_test_id bi cfg test_name w) =
          returned_int (ebind (getitem t ''testId'') (py_int bi))"
      by (intro bexI [of _ t]) (simp_all add: loop)
  qed
qed

theorem find_existing_test_id_by_name_witness:
  "ok (reply 200 TESTS_DATA) \<and>
   dict_get TESTS_DATA ''tests'' (JArr []) = Inr (JArr [cisco_test]) \<and>
   is_dict cisco_test \<and>
   fst (find_existing_test_id test_runtime test_env ''Cisco.com Test''
          (fresh_world (\<lambda>n. Inr (reply 200 TESTS_DATA)))) = Inr (Some 6969142) \<and>
   fst (find_existing_test_id test_runtime test_env ''Different Test''
          (fresh_world (\<lambda>n. Inr (reply 200 TESTS_DATA)))) = Inr None"
proof -
  let ?w = "fresh_world (\<lambda>n. Inr (reply 200 TESTS_DATA))"
  have h1: "network ?w (length (sent ?w)) = Inr (reply 200 TESTS_DATA)"
    by (simp add: fresh_world_def)
  have h2: "ok (reply 200 TESTS_DATA)"
    by (simp add: ok_def reply_def)
  have h3: "json (reply 200 TESTS_DATA) = Inr TESTS_DATA"
    by (simp add: reply_def)
  have h4: "dict_get TESTS_DATA ''tests'' (JArr []) = Inr (JArr [cisco_test])"
    by (simp add: TESTS_DATA_def)
  have h5: "\<forall>t\<in>set [cisco_test]. is_dict t"
    by (simp add: cisco_test_def)
  show ?thesis
    using h2 h4 h5
      find_existing_test_id_by_name [OF h1 h2 h3 h4 h5, of "''Cisco.com Test''" test_runtime test_env]
      find_existing_test_id_by_name [OF h1 h2 h3 h4 h5, of "''Different Test''" test_runtime test_env]
    by (simp add: cisco_test_def name_is_def returned_int_def ebind_def test_runtime_def
        digit_value_def)
qed

text \<open>
  C8. When the agents request succeeds with a JSON object whose \<^verbatim>\<open>agents\<close> array is
  empty, \<^verbatim>\<open>get_first_agent_id\<close> returns \<^verbatim>\<open>None\<close> without raising; it has made one GET
  request and logged its opening line and the warning that no agent was found.
\<close>

theorem get_first_agent_id_no_agents:
  assumes "network w (length (sent w)) = Inr r" and "ok r" and "json r = Inr body"
    and "getitem body ''agents'' = Inr (JArr [])"
  shows "get_first_agent_id bi cfg w =
     (Inr None,
      w\<lparr>sent := sent w @ [\<lparr>req_method = ''GET'', req_url = BASE_URL @ ''/agents'',
                            req_headers = HEADERS cfg, req_json = None\<rparr>],
        logged := logged w @ [(INFO, ''Attempting to fetch the first agent ID.''),
                              (WARNING, ''No agents found in your account.'')]\<rparr>)"
  using assms(1-3) getitem_dict_get [OF assms(4), of "JArr []"]
  by (simp add: get_first_agent_id_def io_defs ebind_def)

theorem get_first_agent_id_no_agents_witness:
  "ok (reply 200 (JObj [(''agents'', JArr [])])) \<and>
   fst (get_first_agent_id test_runtime test_env
          (fresh_world (\<lambda>n. Inr (reply 200 (JObj [(''agents'', JArr [])]))))) = Inr None \<and>
   logged (snd (get_first_agent_id test_runtime test_env
          (fresh_world (\<lambda>n. Inr (reply 200 (JObj [(''agents'', JArr [])])))))) =
     [(INFO, ''Attempting to fetch the first agent ID.''),
      (WARNING, ''No agents found in your account.'')]"
proof -
  let ?r = "reply 200 (JObj [(''agents'', JArr [])])"
  let ?w = "fresh_world (\<lambda>n. Inr ?r)"
  have h1: "network ?w (length (sent ?w)) = Inr ?r"
    by (simp add: fresh_world_def)
  have h2: "ok ?r"
    by (simp add: ok_def reply_def)
  have h3: "json ?r = Inr (JObj [(''agents'', JArr [])])"
    by (simp add: reply_def)
  have h4: "getitem (JObj [(''agents'', JArr [])]) ''agents'' = Inr (JArr [])"
    by simp
  show ?thesis
    using h2 get_first_agent_id_no_agents [OF h1 h2 h3 h4, of test_runtime test_env]
    by (simp add: fresh_world_def)
qed

subsection \<open>Report persistence\<close>

text \<open>
  C9. When the report file cannot be opened for writing, \<^verbatim>\<open>save_report\<close> lets the
  exception of \<^verbatim>\<open>open\<close> propagate: it returns no value, writes no file and logs nothing.
\<close>

theorem save_report_propagates_open_error:
  "save_report ''Cisco.com Test'' results_one read_only_world =
     (Inl (OSError ''Permission denied''), read_only_world)"
  by (simp add: save_report_def dump_to_file_def io_defs read_only_world_def fresh_world_def
      Let_def)

subsection \<open>Result analysis\<close>

text \<open>
  C10. Two result documents whose \<^verbatim>\<open>results\<close> arrays are non-empty and have the same
  first element make \<^verbatim>\<open>analyze_results\<close> behave the same: the same log records (the
  summary among them) and the same outcome, whatever the later elements are.
\<close>

theorem analyze_results_first_entry:
  assumes "getitem results1 ''results'' = Inr (JArr (first # rest1))"
    and "getitem results2 ''results'' = Inr (JArr (first # rest2))"
  shows "analyze_results bi cfg results1 w = analyze_results bi cfg results2 w"
  using getitem_dict_get [OF assms(1), of "JArr []"] getitem_dict_get [OF assms(2), of "JArr []"]
  by (simp add: analyze_results_def io_defs)

theorem analyze_results_first_entry_witness:
  "getitem results_one ''results'' = Inr (JArr [first_run]) \<and>
   getitem results_two ''results'' = Inr (JArr [first_run, second_run]) \<and>
   analyze_results test_runtime test_env results_one (fresh_world (\<lambda>n. Inr (reply 200 results_one))) =
   analyze_results test_runtime test_env results_two (fresh_world (\<lambda>n. Inr (reply 200 results_one)))"
proof -
  have h1: "getitem results_one ''results'' = Inr (JArr (first_run # []))"
    by (simp add: results_one_def)
  have h2: "getitem results_two ''results'' = Inr (JArr (first_run # [second_run]))"
    by (simp add: results_two_def)
  show ?thesis
    using h1 h2 analyze_results_first_entry [OF h1 h2, of test_runtime test_env]
    by simp
qed

end
